theory Spec2Isabelle
  imports Main
begin

section \<open>Filter stages as text, and the pads they name\<close>

text \<open>
  The handlers of \<open>POST /api/merge-videos\<close> assemble the filter graph as a list of
  strings, one per filter stage, of the shape \<open>[in1][in2]...body[out1][out2]...\<close>.
  The planners below keep those strings exactly as the source writes them. The pads a
  stage consumes are its leading bracketed labels, the pads it produces are its trailing
  bracketed labels; both are read off the text by a scanner.
\<close>

fun scan_pads :: "char \<Rightarrow> char \<Rightarrow> string \<Rightarrow> string option \<Rightarrow> string list" where
  "scan_pads opn cls [] cur = []"
| "scan_pads opn cls (c # cs) None =
     (if c = opn then scan_pads opn cls cs (Some []) else [])"
| "scan_pads opn cls (c # cs) (Some l) =
     (if c = cls then l # scan_pads opn cls cs None
      else scan_pads opn cls cs (Some (l @ [c])))"

definition pads_in :: "string \<Rightarrow> string list" where
  "pads_in s = scan_pads (CHR ''['') (CHR '']'') s None"

definition pads_out :: "string \<Rightarrow> string list" where
  "pads_out s = rev (map rev (scan_pads (CHR '']'') (CHR ''['') (rev s) None))"

definition starts_with :: "string \<Rightarrow> string \<Rightarrow> bool" where
  "starts_with p s = (take (length p) s = p)"

text \<open>The text of a stage after its leading input labels.\<close>

definition stage_body :: "string \<Rightarrow> string" where
  "stage_body s = drop (sum_list (map (\<lambda>l. length l + 2) (pads_in s))) s"

text \<open>
  The raw pads of the two-input command: input 0 is the intro, input 1 the main clip.
  Each input is taken to carry a video stream; its audio pad exists only when the probe
  found an audio stream.
\<close>

definition raw_pads :: "bool \<Rightarrow> bool \<Rightarrow> string list" where
  "raw_pads introHasA mainHasA =
     [''0:v'', ''1:v''] @ (if introHasA then [''0:a''] else [])
                        @ (if mainHasA then [''1:a''] else [])"

text \<open>
  \<open>refs_ok avail stages\<close>: walking the stages in order, every pad a stage consumes is
  already available (a raw pad or an output of an earlier stage).
\<close>

fun refs_ok :: "string list \<Rightarrow> string list \<Rightarrow> bool" where
  "refs_ok avail [] = True"
| "refs_ok avail (s # ss) =
     (list_all (\<lambda>l. List.member avail l) (pads_in s) \<and> refs_ok (avail @ pads_out s) ss)"

definition produced :: "string list \<Rightarrow> string list" where
  "produced stages = concat (map pads_out stages)"

text \<open>The labels named by the \<open>-map [label]\<close> directives of an option list.\<close>

definition unbracket :: "string \<Rightarrow> string option" where
  "unbracket s = (case pads_in s of [l] \<Rightarrow> (if length s = length l + 2 then Some l else None)
                  | _ \<Rightarrow> None)"

definition map_args :: "string list \<Rightarrow> string list" where
  "map_args opts = map (drop 5) (filter (starts_with ''-map '') opts)"

definition map_labels :: "string list \<Rightarrow> string list" where
  "map_labels opts = concat (map (\<lambda>a. case unbracket a of Some l \<Rightarrow> [l] | None \<Rightarrow> []) (map_args opts))"

section \<open>The plan: what the handler hands to the transcoder\<close>

record plan =
  allFilters :: "string list"
  audioFilters :: "string list"
  outputOptions :: "string list"

text \<open>
  The first \<open>-map\<close> directive selects the video output, the second (when there is one)
  the audio output.
\<close>

definition finalVideoLabel :: "plan \<Rightarrow> string option" where
  "finalVideoLabel p = (case map_args (outputOptions p) of [] \<Rightarrow> None | v # _ \<Rightarrow> Some v)"

definition finalAudioLabel :: "plan \<Rightarrow> string option" where
  "finalAudioLabel p = (case map_args (outputOptions p) of v # a # _ \<Rightarrow> Some a | _ \<Rightarrow> None)"

text \<open>
  A plan is well formed for a pair of audio-presence flags when no stage consumes a pad
  that is not yet available, every mapped label is produced by some stage, and no label
  is produced twice.
\<close>

definition well_formed :: "bool \<Rightarrow> bool \<Rightarrow> plan \<Rightarrow> bool" where
  "well_formed introHasA mainHasA p =
     (refs_ok (raw_pads introHasA mainHasA) (allFilters p)
      \<and> list_all (\<lambda>l. List.member (produced (allFilters p)) l) (map_labels (outputOptions p))
      \<and> distinct (produced (allFilters p)))"

subsection \<open>Output option lists\<close>

definition options_av :: "string \<Rightarrow> string list" where
  "options_av audioLabel =
     [''-map [v]'', ''-map '' @ audioLabel, ''-c:v libx264'', ''-preset veryfast'',
      ''-crf 20'', ''-c:a aac'', ''-b:a 192k'', ''-movflags +faststart'']"

definition options_v :: "string list" where
  "options_v =
     [''-map [v]'', ''-c:v libx264'', ''-preset veryfast'', ''-crf 20'',
      ''-movflags +faststart'']"

subsection \<open>Video normalisation\<close>

definition videoFilters :: "string list" where
  "videoFilters =
     [''[0:v]fps=30,format=yuv420p,scale=w=1920:h=1080:force_original_aspect_ratio=decrease,setpts=PTS-STARTPTS[v0]'',
      ''[1:v]fps=30,format=yuv420p,scale=w=1920:h=1080:force_original_aspect_ratio=decrease,setpts=PTS-STARTPTS[v1]'']"

text \<open>The silence-synthesis handler normalises without scaling.\<close>

definition videoFilters_noscale :: "string list" where
  "videoFilters_noscale =
     [''[0:v]fps=30,format=yuv420p,setpts=PTS-STARTPTS[v0]'',
      ''[1:v]fps=30,format=yuv420p,setpts=PTS-STARTPTS[v1]'']"

subsection \<open>Separate-audio planner (first handler of \<open>src/unnamed/part_000\<close>)\<close>

text \<open>
  Video is always concatenated alone; \<open>audio_separate\<close> is the four-way branch that
  fills \<open>audioFilters\<close> and \<open>audioOutputLabel\<close> (\<open>None\<close> for the source's \<open>null\<close>).
\<close>

definition audio_separate :: "bool \<Rightarrow> bool \<Rightarrow> string list \<times> string option" where
  "audio_separate introHasA mainHasA =
     (if introHasA \<and> mainHasA then
        ([''[0:a]aresample=48000,asetpts=PTS-STARTPTS[a_intro]'',
          ''[1:a]aresample=48000,asetpts=PTS-STARTPTS[a_main]'',
          ''[a_intro][a_main]concat=n=2:v=0:a=1[a]''], Some ''[a]'')
      else if introHasA \<and> \<not> mainHasA then
        ([''[0:a]aresample=48000,asetpts=PTS-STARTPTS[a_intro]''], Some ''[a_intro]'')
      else if \<not> introHasA \<and> mainHasA then
        ([''[1:a]aresample=48000,asetpts=PTS-STARTPTS[a_main]''], Some ''[a_main]'')
      else ([], None))"

definition plan_separate :: "bool \<Rightarrow> bool \<Rightarrow> plan" where
  "plan_separate introHasA mainHasA =
     (let filterSegments = videoFilters @ [''[v0][v1]concat=n=2:v=1:a=0[v]''];
          (audioFs, audioOutputLabel) = audio_separate introHasA mainHasA
      in \<lparr> allFilters = filterSegments @ audioFs,
           audioFilters = audioFs,
           outputOptions = (case audioOutputLabel of
                              Some l \<Rightarrow> options_av l
                            | None \<Rightarrow> options_v) \<rparr>)"

subsection \<open>Fused-concat planner (first handler of \<open>src/server.js\<close>)\<close>

text \<open>
  \<open>audio_fused\<close> is the four-way branch that fills \<open>audioFilters\<close>, \<open>concatFilter\<close> and
  \<open>hasAudioOutput\<close>. With audio the output options always map \<open>[v]\<close> and \<open>[a]\<close>.
\<close>

definition audio_fused :: "bool \<Rightarrow> bool \<Rightarrow> string list \<times> string \<times> bool" where
  "audio_fused introHasA mainHasA =
     (if introHasA \<and> mainHasA then
        ([''[0:a]aresample=48000,asetpts=PTS-STARTPTS[a0]'',
          ''[1:a]aresample=48000,asetpts=PTS-STARTPTS[a1]''],
         ''[v0][a0][v1][a1]concat=n=2:v=1:a=1[v][a]'', True)
      else if introHasA \<and> \<not> mainHasA then
        ([''[0:a]aresample=48000,asetpts=PTS-STARTPTS[a0]''],
         ''[v0][a0][v1][a0]concat=n=2:v=1:a=1[v][a]'', True)
      else if \<not> introHasA \<and> mainHasA then
        ([''[1:a]aresample=48000,asetpts=PTS-STARTPTS[a1]''],
         ''[v0][v1]concat=n=2:v=1:a=0[v]'', True)
      else ([], ''[v0][v1]concat=n=2:v=1:a=0[v]'', False))"

definition plan_fused :: "bool \<Rightarrow> bool \<Rightarrow> plan" where
  "plan_fused introHasA mainHasA =
     (let (audioFs, concatFilter, hasAudioOutput) = audio_fused introHasA mainHasA
      in \<lparr> allFilters = videoFilters @ audioFs @ [concatFilter],
           audioFilters = audioFs,
           outputOptions = (if hasAudioOutput then options_av ''[a]'' else options_v) \<rparr>)"

subsection \<open>Silence-synthesis planner (second handler of \<open>src/server.js\<close>)\<close>

definition audio_silence :: "bool \<Rightarrow> bool \<Rightarrow> string list" where
  "audio_silence introHasA mainHasA =
     [if introHasA then ''[0:a]aresample=48000,asetpts=PTS-STARTPTS[a0]''
      else ''anullsrc=cl=stereo:r=48000,atrim=0:1[a0]'',
      if mainHasA then ''[1:a]aresample=48000,asetpts=PTS-STARTPTS[a1]''
      else ''anullsrc=cl=stereo:r=48000,atrim=0:1[a1]'']"

definition plan_silence :: "bool \<Rightarrow> bool \<Rightarrow> plan" where
  "plan_silence introHasA mainHasA =
     (let audioFs = audio_silence introHasA mainHasA;
          concatFilter = ''[v0][a0][v1][a1]concat=n=2:v=1:a=1[v][a]''
      in \<lparr> allFilters = videoFilters_noscale @ audioFs @ [concatFilter],
           audioFilters = audioFs,
           outputOptions = options_av ''[a]'' \<rparr>)"

subsection \<open>Reject-asymmetric planner (second handler of \<open>src/unnamed/part_000\<close>)\<close>

text \<open>
  Two of the four combinations leave the handler early with status 400 and a message;
  the other two are planned as in the separate-audio design.
\<close>

datatype reject = Reject nat string

definition plan_reject :: "bool \<Rightarrow> bool \<Rightarrow> reject + plan" where
  "plan_reject introHasA mainHasA =
     (if introHasA \<and> \<not> mainHasA then
        Inl (Reject 400 ''Unsupported combination: intro has audio but main does not. Provide main clip with audio or remove intro audio.'')
      else if \<not> introHasA \<and> \<not> mainHasA then
        Inl (Reject 400 ''Unsupported combination: neither input has audio. Provide a main clip with audio.'')
      else
        (let filterSegments = videoFilters @ [''[v0][v1]concat=n=2:v=1:a=0[v]''];
             (audioFs, audioOutputLabel) =
               (if introHasA \<and> mainHasA then
                  ([''[0:a]aresample=48000,asetpts=PTS-STARTPTS[a0]'',
                    ''[1:a]aresample=48000,asetpts=PTS-STARTPTS[a1]'',
                    ''[a0][a1]concat=n=2:v=0:a=1[a]''], Some ''[a]'')
                else
                  ([''[1:a]aresample=48000,asetpts=PTS-STARTPTS[a_main]''], Some ''[a_main]''))
         in Inr \<lparr> allFilters = filterSegments @ audioFs,
                  audioFilters = audioFs,
                  outputOptions = (case audioOutputLabel of
                                     Some l \<Rightarrow> options_av l
                                   | None \<Rightarrow> options_v) \<rparr>))"

subsection \<open>Kinds of audio stage\<close>

definition is_normalize :: "string \<Rightarrow> bool" where
  "is_normalize s = starts_with ''aresample=48000,asetpts=PTS-STARTPTS'' (stage_body s)"

definition is_audio_concat :: "string \<Rightarrow> bool" where
  "is_audio_concat s = starts_with ''concat=n=2:v=0:a=1'' (stage_body s)"

definition is_silence :: "string \<Rightarrow> bool" where
  "is_silence s = starts_with ''anullsrc='' (stage_body s)"


text \<open>The filter chain of a stage: its text without input and output labels.\<close>

definition stage_chain :: "string \<Rightarrow> string" where
  "stage_chain s =
     (let b = stage_body s
      in take (length b - sum_list (map (\<lambda>l. length l + 2) (pads_out s))) b)"

fun split_on :: "char \<Rightarrow> string \<Rightarrow> string list" where
  "split_on d [] = [[]]"
| "split_on d (c # cs) =
     (case split_on d cs of
        [] \<Rightarrow> [[c]]
      | w # ws \<Rightarrow> (if c = d then [] # w # ws else (c # w) # ws))"

definition digit_val :: "char \<Rightarrow> nat option" where
  "digit_val c = (let k = of_char c :: nat in if 48 \<le> k \<and> k \<le> 57 then Some (k - 48) else None)"

fun nat_of_digits :: "nat \<Rightarrow> string \<Rightarrow> nat option" where
  "nat_of_digits acc [] = Some acc"
| "nat_of_digits acc (c # cs) =
     (case digit_val c of None \<Rightarrow> None | Some d \<Rightarrow> nat_of_digits (10 * acc + d) cs)"

text \<open>
  The window \<open>(start, end)\<close>, in whole seconds, of an \<open>atrim=start:end\<close> filter in the
  chain of a stage, when the chain has one.
\<close>

definition atrim_window :: "string \<Rightarrow> (nat \<times> nat) option" where
  "atrim_window s =
     (case filter (starts_with ''atrim='') (split_on (CHR '','') (stage_chain s)) of
        [] \<Rightarrow> None
      | f # _ \<Rightarrow>
          (case split_on (CHR '':'') (drop 6 f) of
             [a, b] \<Rightarrow>
               (if a = [] \<or> b = [] then None
                else (case (nat_of_digits 0 a, nat_of_digits 0 b) of
                        (Some x, Some y) \<Rightarrow> Some (x, y)
                      | _ \<Rightarrow> None))
           | _ \<Rightarrow> None))"

section \<open>Probe results\<close>

text \<open>
  A probe yields an info object with an optional list of stream descriptors. The handlers
  read only \<open>codec_type\<close>; \<open>duration\<close> stands for what else a descriptor carries.
  \<open>has_audio\<close> is \<open>(info?.streams || []).some(s => s.codec_type === 'audio')\<close>.
\<close>

record stream =
  codec_type :: string
  duration :: string

record probe_info =
  streams :: "stream list option"

definition has_audio :: "probe_info option \<Rightarrow> bool" where
  "has_audio info =
     (let ss = (case info of None \<Rightarrow> []
                | Some i \<Rightarrow> (case streams i of None \<Rightarrow> [] | Some l \<Rightarrow> l))
      in list_ex (\<lambda>s. codec_type s = ''audio'') ss)"

section \<open>Decimal rendering of the clock and temporary paths\<close>

definition digit_char :: "nat \<Rightarrow> char" where
  "digit_char d = char_of (48 + d)"

fun string_of_nat :: "nat \<Rightarrow> string" where
  "string_of_nat n =
     (if n < 10 then [digit_char n] else string_of_nat (n div 10) @ [digit_char (n mod 10)])"

declare string_of_nat.simps [simp del]

text \<open>
  \<open>path.join\<close> and \<open>path.resolve\<close> on components that are already normalised:
  joining puts one separator between the parts, resolving prefixes the working directory
  to a relative path.
\<close>

definition path_join :: "string \<Rightarrow> string \<Rightarrow> string" where
  "path_join a b = a @ ''/'' @ b"

definition path_resolve :: "string \<Rightarrow> string \<Rightarrow> string" where
  "path_resolve cwd p = (if starts_with ''/'' p then p else path_join cwd p)"

definition merged_name :: "nat \<Rightarrow> string" where
  "merged_name t = ''merged_'' @ string_of_nat t @ ''.mp4''"

definition filelist_name :: "nat \<Rightarrow> string" where
  "filelist_name t = ''filelist_'' @ string_of_nat t @ ''.txt''"

section \<open>The request handlers\<close>

text \<open>
  \<open>req.files\<close> may be undefined; each of its fields may be undefined, and otherwise is
  the list of stored paths of the files uploaded under that name.
\<close>

record upload =
  intro :: "string list option"
  main :: "string list option"

record request =
  files :: "upload option"

record ffmpeg_cmd =
  inputs :: "string list"
  inputOptions :: "string list"
  complexFilter :: "string list"
  cmdOutputOptions :: "string list"
  outFile :: string

text \<open>
  Everything the handler asks of its environment: the temporary directory and working
  directory, the clock (read a second time by the stream-copy handler), the answers of
  the probe and of the transcoder (\<open>Inl\<close>/\<open>Some\<close> carry the error message), whether the
  main probe rejects before the intro probe when both fail, whether a failed transcode
  leaves a partial output file, whether writing the list file fails, whether delivery
  fails, the engine's wording of a read from \<open>undefined\<close>, and the files present in
  temporary storage when the handler starts.
\<close>

record world =
  tmpdir :: string
  cwd :: string
  now :: nat
  now2 :: nat
  probe :: "string \<Rightarrow> string + probe_info option"
  transcode :: "ffmpeg_cmd \<Rightarrow> string option"
  mainRejectsFirst :: bool
  partialOutput :: bool
  writeFails :: "string option"
  deliveryFails :: bool
  typeErrorMessage :: "string \<Rightarrow> string"
  files0 :: "string set"

datatype response =
    Json nat string
  | Text nat string
  | File string
  | Aborted string

datatype event =
    Probe string
  | WriteFile string string
  | Transcode ffmpeg_cmd
  | SendFile string
  | Unlink string
  | UnlinkThrew string

record outcome =
  response :: response
  trace :: "event list"
  storage :: "string set"

text \<open>
  The cleanup block: \<open>unlinkSync\<close> calls in sequence inside one \<open>try\<close>; the first that
  throws (the file is not there) skips the rest.
\<close>

fun unlink_all :: "string list \<Rightarrow> string set \<Rightarrow> event list \<times> string set" where
  "unlink_all [] fs = ([], fs)"
| "unlink_all (p # ps) fs =
     (if p \<in> fs then (let (ev, fs') = unlink_all ps (fs - {p}) in (Unlink p # ev, fs'))
      else ([UnlinkThrew p], fs))"

definition TMP :: "world \<Rightarrow> string" where
  "TMP w = path_join (tmpdir w) ''video-merge-api''"

definition missing_files_message :: string where
  "missing_files_message =
     ''Missing files. Send form fields '' @ [CHR 0x22] @ ''intro'' @ [CHR 0x22]
       @ '' and '' @ [CHR 0x22] @ ''main'' @ [CHR 0x22] @ ''.''"

text \<open>\<open>files[0].path\<close>: reading \<open>path\<close> of \<open>undefined\<close> throws when the list is empty.\<close>

definition first_path :: "world \<Rightarrow> string list \<Rightarrow> string + string" where
  "first_path w fs = (case fs of [] \<Rightarrow> Inl (typeErrorMessage w ''path'') | p # _ \<Rightarrow> Inr p)"

text \<open>
  \<open>Promise.all\<close> over the two probes: both probes are started; the first rejection is
  the error of the whole.
\<close>

definition probe_both :: "world \<Rightarrow> string \<Rightarrow> string \<Rightarrow> string + (probe_info option \<times> probe_info option)" where
  "probe_both w introPath mainPath =
     (case (probe w introPath, probe w mainPath) of
        (Inr i, Inr m) \<Rightarrow> Inr (i, m)
      | (Inl e, Inr m) \<Rightarrow> Inl e
      | (Inr i, Inl e) \<Rightarrow> Inl e
      | (Inl e1, Inl e2) \<Rightarrow> Inl (if mainRejectsFirst w then e2 else e1))"

text \<open>
  The four filter-graph handlers share their text outside the planning section; the
  planner is the parameter. Every exit through \<open>catch\<close> answers 500 with the error's
  message and touches no file.
\<close>

definition merge_with :: "(bool \<Rightarrow> bool \<Rightarrow> reject + plan) \<Rightarrow> world \<Rightarrow> request \<Rightarrow> outcome" where
  "merge_with planner w req =
     (let missing = \<lparr> response = Json 400 missing_files_message, trace = [], storage = files0 w \<rparr>;
          failed = (\<lambda>msg tr fs. \<lparr> response = Json 500 msg, trace = tr, storage = fs \<rparr>)
      in case files req of
           None \<Rightarrow> missing
         | Some up \<Rightarrow>
          (case (intro up, main up) of
             (None, _) \<Rightarrow> missing
           | (Some is, None) \<Rightarrow> missing
           | (Some is, Some ms) \<Rightarrow>
            (case first_path w is of
               Inl e \<Rightarrow> failed e [] (files0 w)
             | Inr introPath \<Rightarrow>
              (case first_path w ms of
                 Inl e \<Rightarrow> failed e [] (files0 w)
               | Inr mainPath \<Rightarrow>
                (let outputPath = path_join (TMP w) (merged_name (now w));
                     probes = [Probe introPath, Probe mainPath]
                 in case probe_both w introPath mainPath of
                      Inl e \<Rightarrow> failed e probes (files0 w)
                    | Inr (introInfo, mainInfo) \<Rightarrow>
                     (case planner (has_audio introInfo) (has_audio mainInfo) of
                        Inl (Reject st msg) \<Rightarrow>
                          \<lparr> response = Json st msg, trace = probes, storage = files0 w \<rparr>
                      | Inr p \<Rightarrow>
                       (let cmd = \<lparr> inputs = [introPath, mainPath], inputOptions = [],
                                    complexFilter = allFilters p,
                                    cmdOutputOptions = outputOptions p,
                                    outFile = outputPath \<rparr>
                        in case transcode w cmd of
                             Some e \<Rightarrow>
                               failed e (probes @ [Transcode cmd])
                                 (if partialOutput w then insert outputPath (files0 w) else files0 w)
                           | None \<Rightarrow>
                              (let sent = path_resolve (cwd w) outputPath;
                                   (ev, fs) = unlink_all [introPath, mainPath, outputPath]
                                                (insert outputPath (files0 w))
                               in \<lparr> response = (if deliveryFails w then Aborted sent else File sent),
                                    trace = probes @ [Transcode cmd, SendFile sent] @ ev,
                                    storage = fs \<rparr>))))))))"

definition merge_fused :: "world \<Rightarrow> request \<Rightarrow> outcome" where
  "merge_fused = merge_with (\<lambda>i m. Inr (plan_fused i m))"

definition merge_silence :: "world \<Rightarrow> request \<Rightarrow> outcome" where
  "merge_silence = merge_with (\<lambda>i m. Inr (plan_silence i m))"

definition merge_separate :: "world \<Rightarrow> request \<Rightarrow> outcome" where
  "merge_separate = merge_with (\<lambda>i m. Inr (plan_separate i m))"

definition merge_reject :: "world \<Rightarrow> request \<Rightarrow> outcome" where
  "merge_reject = merge_with plan_reject"

subsection \<open>Stream-copy handler (\<open>src/unnamed/part_001\<close>)\<close>

text \<open>
  No check of the upload fields: \<open>req.files.intro[0].path\<close> throws when \<open>req.files\<close>,
  the field or its first element is undefined. Every exit through \<open>catch\<close> answers 500
  with the plain text \<open>Error: \<close> and the message.
\<close>

definition field_path :: "world \<Rightarrow> request \<Rightarrow> string \<Rightarrow> (upload \<Rightarrow> string list option) \<Rightarrow> string + string" where
  "field_path w req name field =
     (case files req of
        None \<Rightarrow> Inl (typeErrorMessage w name)
      | Some up \<Rightarrow>
         (case field up of
            None \<Rightarrow> Inl (typeErrorMessage w ''0'')
          | Some fs \<Rightarrow> first_path w fs))"

definition file_list_text :: "world \<Rightarrow> string \<Rightarrow> string \<Rightarrow> string" where
  "file_list_text w introPath mainPath =
     ''file '' @ [CHR 0x27] @ path_resolve (cwd w) introPath @ [CHR 0x27] @ [CHR 0x0A]
       @ ''file '' @ [CHR 0x27] @ path_resolve (cwd w) mainPath @ [CHR 0x27]"

text \<open>
  The transcoder command of this handler: one input, the list file, read with the concat
  demuxer; no filter graph; streams copied.
\<close>

definition concat_copy_cmd :: "string \<Rightarrow> string \<Rightarrow> ffmpeg_cmd" where
  "concat_copy_cmd fileListPath outputPath =
     \<lparr> inputs = [fileListPath],
       inputOptions = [''-f concat'', ''-safe 0''],
       complexFilter = [],
       cmdOutputOptions = [''-c copy''],
       outFile = outputPath \<rparr>"

definition merge_copy :: "world \<Rightarrow> request \<Rightarrow> outcome" where
  "merge_copy w req =
     (let failed = (\<lambda>msg tr fs. \<lparr> response = Text 500 (''Error: '' @ msg), trace = tr, storage = fs \<rparr>)
      in case field_path w req ''intro'' intro of
           Inl e \<Rightarrow> failed e [] (files0 w)
         | Inr introPath \<Rightarrow>
          (case field_path w req ''main'' main of
             Inl e \<Rightarrow> failed e [] (files0 w)
           | Inr mainPath \<Rightarrow>
            (let outputPath = path_join ''uploads'' (merged_name (now w));
                 fileListPath = path_join ''uploads'' (filelist_name (now2 w));
                 fileList = file_list_text w introPath mainPath
             in case writeFails w of
                  Some e \<Rightarrow> failed e [] (files0 w)
                | None \<Rightarrow>
                 (let cmd = concat_copy_cmd fileListPath outputPath;
                      written = [WriteFile fileListPath fileList];
                      fs1 = insert fileListPath (files0 w)
                  in case transcode w cmd of
                       Some e \<Rightarrow>
                         failed e (written @ [Transcode cmd])
                           (if partialOutput w then insert outputPath fs1 else fs1)
                     | None \<Rightarrow>
                        (let sent = path_resolve (cwd w) outputPath;
                             (ev, fs) = unlink_all [introPath, mainPath, fileListPath, outputPath]
                                          (insert outputPath fs1)
                         in \<lparr> response = (if deliveryFails w then Aborted sent else File sent),
                              trace = written @ [Transcode cmd, SendFile sent] @ ev,
                              storage = fs \<rparr>)))))"

subsection \<open>Reading a trace\<close>

fun is_probe :: "event \<Rightarrow> bool" where
  "is_probe (Probe p) = True"
| "is_probe e = False"

fun is_transcode :: "event \<Rightarrow> bool" where
  "is_transcode (Transcode c) = True"
| "is_transcode e = False"

fun is_unlink :: "event \<Rightarrow> bool" where
  "is_unlink (Unlink p) = True"
| "is_unlink e = False"

definition transcodes :: "event list \<Rightarrow> ffmpeg_cmd list" where
  "transcodes tr = concat (map (\<lambda>e. case e of Transcode c \<Rightarrow> [c] | _ \<Rightarrow> []) tr)"

definition unlinked :: "event list \<Rightarrow> string list" where
  "unlinked tr = concat (map (\<lambda>e. case e of Unlink p \<Rightarrow> [p] | _ \<Rightarrow> []) tr)"

subsection \<open>Sample environments and requests\<close>

definition info_av :: "probe_info option" where
  "info_av = Some \<lparr> streams = Some [\<lparr> codec_type = ''video'', duration = ''12.5'' \<rparr>,
                                     \<lparr> codec_type = ''audio'', duration = ''12.5'' \<rparr>] \<rparr>"

definition info_v :: "probe_info option" where
  "info_v = Some \<lparr> streams = Some [\<lparr> codec_type = ''video'', duration = ''300'' \<rparr>] \<rparr>"

definition world0 :: world where
  "world0 =
     \<lparr> tmpdir = ''/tmp'', cwd = ''/app'', now = 42, now2 = 43,
       probe = (\<lambda>p. Inr (if p = ''/tmp/video-merge-api/i1'' \<or> p = ''uploads/i1'' then info_av else info_v)),
       transcode = (\<lambda>c. None),
       mainRejectsFirst = False, partialOutput = False, writeFails = None,
       deliveryFails = False,
       typeErrorMessage = (\<lambda>k. ''Cannot read properties of undefined (reading '' @ [CHR 0x27] @ k @ [CHR 0x27] @ '')''),
       files0 = {''/tmp/video-merge-api/i1'', ''/tmp/video-merge-api/m1'',
                 ''/tmp/video-merge-api/i2'', ''/tmp/video-merge-api/m2''} \<rparr>"

definition request0 :: request where
  "request0 = \<lparr> files = Some \<lparr> intro = Some [''/tmp/video-merge-api/i1''],
                               main = Some [''/tmp/video-merge-api/m1''] \<rparr> \<rparr>"

definition request_no_main :: request where
  "request_no_main = \<lparr> files = Some \<lparr> intro = Some [''/tmp/video-merge-api/i1''], main = None \<rparr> \<rparr>"


definition request1 :: request where
  "request1 = \<lparr> files = Some \<lparr> intro = Some [''/tmp/video-merge-api/i2''],
                               main = Some [''/tmp/video-merge-api/m2''] \<rparr> \<rparr>"

text \<open>The same environment with a transcoder that fails.\<close>

definition world_fail :: world where
  "world_fail = world0 \<lparr> transcode := (\<lambda>c. Some ''ffmpeg exited with code 1'') \<rparr>"

fun is_failure :: "response \<Rightarrow> bool" where
  "is_failure (Json st msg) = True"
| "is_failure (Text st msg) = True"
| "is_failure r = False"

text \<open>The stages of a list that consume a given pad, and those that produce it.\<close>

definition consumers :: "string \<Rightarrow> string list \<Rightarrow> string list" where
  "consumers l stages = filter (\<lambda>s. List.member (pads_in s) l) stages"

definition producers :: "string \<Rightarrow> string list \<Rightarrow> string list" where
  "producers l stages = filter (\<lambda>s. List.member (pads_out s) l) stages"

text \<open>The length in seconds of the window an \<open>atrim\<close> filter keeps.\<close>

definition trim_seconds :: "string \<Rightarrow> nat option" where
  "trim_seconds s = (case atrim_window s of None \<Rightarrow> None | Some (a, b) \<Rightarrow> Some (b - a))"


text \<open>
  The size of the audio part of a plan: the length of \<open>audioFilters\<close>, and among all
  stages the number of audio-normalize stages, of audio-only concat stages and of
  silence-synthesis stages.
\<close>

definition stage_counts :: "plan \<Rightarrow> nat \<times> nat \<times> nat \<times> nat" where
  "stage_counts p =
     (length (audioFilters p),
      length (filter is_normalize (allFilters p)),
      length (filter is_audio_concat (allFilters p)),
      length (filter is_silence (allFilters p)))"

section \<open>Facts about the planners\<close>

lemma separate_map_args:
  "map_args (outputOptions (plan_separate True True)) = [''[v]'', ''[a]'']"
  "map_args (outputOptions (plan_separate True False)) = [''[v]'', ''[a_intro]'']"
  "map_args (outputOptions (plan_separate False True)) = [''[v]'', ''[a_main]'']"
  "map_args (outputOptions (plan_separate False False)) = [''[v]'']"
  by code_simp+

lemma fused_map_args:
  "map_args (outputOptions (plan_fused True True)) = [''[v]'', ''[a]'']"
  "map_args (outputOptions (plan_fused True False)) = [''[v]'', ''[a]'']"
  "map_args (outputOptions (plan_fused False True)) = [''[v]'', ''[a]'']"
  "map_args (outputOptions (plan_fused False False)) = [''[v]'']"
  by code_simp+

lemma separate_well_formed_cases:
  "well_formed True True (plan_separate True True)"
  "well_formed True False (plan_separate True False)"
  "well_formed False True (plan_separate False True)"
  "well_formed False False (plan_separate False False)"
  by code_simp+

lemma separate_well_formed: "well_formed ia ma (plan_separate ia ma)"
  by (cases ia; cases ma) (simp_all add: separate_well_formed_cases)

lemma silence_well_formed_cases:
  "well_formed True True (plan_silence True True)"
  "well_formed True False (plan_silence True False)"
  "well_formed False True (plan_silence False True)"
  "well_formed False False (plan_silence False False)"
  by code_simp+

lemma silence_well_formed: "well_formed ia ma (plan_silence ia ma)"
  by (cases ia; cases ma) (simp_all add: silence_well_formed_cases)

lemma fused_well_formed_cases:
  "well_formed True True (plan_fused True True)"
  "well_formed True False (plan_fused True False)"
  "well_formed False False (plan_fused False False)"
  by code_simp+

lemma reject_cases:
  "plan_reject True False = Inl (Reject 400 ''Unsupported combination: intro has audio but main does not. Provide main clip with audio or remove intro audio.'')"
  "plan_reject False False = Inl (Reject 400 ''Unsupported combination: neither input has audio. Provide a main clip with audio.'')"
  by (simp_all add: plan_reject_def)

lemma reject_accepts:
  "\<exists>p. plan_reject True True = Inr p \<and> well_formed True True p"
  "\<exists>p. plan_reject False True = Inr p \<and> well_formed False True p"
proof -
  have "well_formed True True (projr (plan_reject True True))" by code_simp
  moreover have "plan_reject True True = Inr (projr (plan_reject True True))"
    by (simp add: plan_reject_def)
  ultimately show "\<exists>p. plan_reject True True = Inr p \<and> well_formed True True p" by metis
next
  have "well_formed False True (projr (plan_reject False True))" by code_simp
  moreover have "plan_reject False True = Inr (projr (plan_reject False True))"
    by (simp add: plan_reject_def)
  ultimately show "\<exists>p. plan_reject False True = Inr p \<and> well_formed False True p" by metis
qed

lemma separate_counts:
  "stage_counts (plan_separate True True) = (3, 2, 1, 0)"
  "stage_counts (plan_separate True False) = (1, 1, 0, 0)"
  "stage_counts (plan_separate False True) = (1, 1, 0, 0)"
  "stage_counts (plan_separate False False) = (0, 0, 0, 0)"
  by code_simp+

lemma silence_counts:
  "stage_counts (plan_silence True True) = (2, 2, 0, 0)"
  "stage_counts (plan_silence True False) = (2, 1, 0, 1)"
  "stage_counts (plan_silence False True) = (2, 1, 0, 1)"
  "stage_counts (plan_silence False False) = (2, 0, 0, 2)"
  by code_simp+

section \<open>The final labels of a plan\<close>

text \<open>
  C1. For every pair of audio-presence flags, the plan of the separate-audio handler and
  the plan of the fused-concat handler both map a video output (the label \<open>[v]\<close>), and
  map an audio output exactly when at least one input has audio.
\<close>

theorem final_labels_set:
  "finalVideoLabel (plan_separate ia ma) = Some ''[v]''
   \<and> (finalAudioLabel (plan_separate ia ma) \<noteq> None) = (ia \<or> ma)
   \<and> finalVideoLabel (plan_fused ia ma) = Some ''[v]''
   \<and> (finalAudioLabel (plan_fused ia ma) \<noteq> None) = (ia \<or> ma)"
  by (cases ia; cases ma)
     (simp_all add: finalVideoLabel_def finalAudioLabel_def separate_map_args fused_map_args)

theorem final_labels_set_witness:
  "finalVideoLabel (plan_separate True False) = Some ''[v]''
   \<and> finalAudioLabel (plan_separate True False) \<noteq> None
   \<and> finalVideoLabel (plan_fused False False) = Some ''[v]''
   \<and> finalAudioLabel (plan_fused False False) = None"
  using final_labels_set [of True False] final_labels_set [of False False] by simp

section \<open>References between stages\<close>

text \<open>
  C2. Every pad a stage consumes or a \<open>-map\<close> directive names should be a raw input pad
  or the output of an earlier stage. In the fused-concat handler, when only the main clip
  has audio, the stages produce \<open>v0\<close>, \<open>v1\<close>, \<open>a1\<close> and \<open>v\<close>, and the output options
  map \<open>[v]\<close> and \<open>[a]\<close>: the mapped audio label \<open>a\<close> is produced by no stage, so the
  plan is not well formed. The separate-audio handler maps \<open>[a_main]\<close> for the same
  flags and its plan is well formed.
\<close>

theorem fused_main_only_maps_unproduced_audio:
  "map_labels (outputOptions (plan_fused False True)) = [''v'', ''a'']
   \<and> produced (allFilters (plan_fused False True)) = [''v0'', ''v1'', ''a1'', ''v'']
   \<and> \<not> well_formed False True (plan_fused False True)
   \<and> map_labels (outputOptions (plan_separate False True)) = [''v'', ''a_main'']
   \<and> well_formed False True (plan_separate False True)"
  by code_simp

section \<open>Intro-only audio\<close>

text \<open>
  C3, as the claim states it, fails on the fused-concat handler: with audio in the intro
  only, the intro's normalised pad \<open>a0\<close> is not the audio output. It is fed to the
  four-pad concat for both segments, and the mapped audio output is the concat's \<open>[a]\<close>.
\<close>

theorem fused_intro_only_repeats_audio:
  "finalAudioLabel (plan_fused True False) = Some ''[a]''
   \<and> finalAudioLabel (plan_fused True False) \<noteq> Some ''[a0]''
   \<and> consumers ''a0'' (allFilters (plan_fused True False))
       = [''[v0][a0][v1][a0]concat=n=2:v=1:a=1[v][a]'']
   \<and> pads_in (last (allFilters (plan_fused True False))) = [''v0'', ''a0'', ''v1'', ''a0'']"
  by code_simp

text \<open>
  C3, amended. With audio in the intro only, both handlers resample the intro's audio
  track alone. The separate-audio handler maps that single normalised pad \<open>[a_intro]\<close> as
  the audio output, no stage consumes it (it is neither extended nor repeated), the two
  video pads are joined by the video-only concat, and the plan has a video and an audio
  output. The fused-concat handler feeds its normalised pad \<open>a0\<close> twice to the one concat
  stage that produces both \<open>v\<close> and \<open>a\<close>, and maps \<open>[v]\<close> and \<open>[a]\<close>.
\<close>

theorem intro_only_audio_plans:
  "audioFilters (plan_separate True False) = [''[0:a]aresample=48000,asetpts=PTS-STARTPTS[a_intro]'']
   \<and> consumers ''0:a'' (allFilters (plan_separate True False)) = audioFilters (plan_separate True False)
   \<and> consumers ''1:a'' (allFilters (plan_separate True False)) = []
   \<and> finalAudioLabel (plan_separate True False) = Some ''[a_intro]''
   \<and> producers ''a_intro'' (allFilters (plan_separate True False)) = audioFilters (plan_separate True False)
   \<and> consumers ''a_intro'' (allFilters (plan_separate True False)) = []
   \<and> finalVideoLabel (plan_separate True False) = Some ''[v]''
   \<and> producers ''v'' (allFilters (plan_separate True False)) = [''[v0][v1]concat=n=2:v=1:a=0[v]'']
   \<and> audioFilters (plan_fused True False) = [''[0:a]aresample=48000,asetpts=PTS-STARTPTS[a0]'']
   \<and> consumers ''1:a'' (allFilters (plan_fused True False)) = []
   \<and> producers ''a'' (allFilters (plan_fused True False)) = [''[v0][a0][v1][a0]concat=n=2:v=1:a=1[v][a]'']
   \<and> producers ''v'' (allFilters (plan_fused True False)) = [''[v0][a0][v1][a0]concat=n=2:v=1:a=1[v][a]'']
   \<and> map_args (outputOptions (plan_fused True False)) = [''[v]'', ''[a]'']"
  by code_simp

section \<open>Number of audio stages\<close>

text \<open>
  C4, as the claim states it, fails on the silence-synthesis handler: with no audio in
  either input it still builds two audio stages (both synthesised silence), and with audio
  in one input only it builds two, one of them synthesised silence.
\<close>

theorem silence_always_two_audio_stages:
  "length (audioFilters (plan_silence False False)) = 2
   \<and> length (audioFilters (plan_silence True False)) = 2
   \<and> length (filter is_silence (audioFilters (plan_silence True False))) = 1"
  by code_simp

text \<open>
  C4, amended. In the separate-audio handler the audio stages number three (two
  normalize stages and one audio concat stage) when both inputs have audio, exactly one
  normalize stage when exactly one input has audio, and none when neither has. In the
  silence-synthesis handler \<open>audioFilters\<close> always holds two stages, one per input: a
  normalize stage for an input with audio, a silence-synthesis stage for one without;
  there is no audio-only concat stage.
\<close>

theorem audio_stage_counts:
  "stage_counts (plan_separate ia ma)
     = (if ia \<and> ma then (3, 2, 1, 0) else if ia \<or> ma then (1, 1, 0, 0) else (0, 0, 0, 0))
   \<and> stage_counts (plan_silence ia ma)
     = (2, (if ia then 1 else 0) + (if ma then 1 else 0), 0,
           (if ia then 0 else 1) + (if ma then 0 else 1))"
  by (cases ia; cases ma) (simp_all add: separate_counts silence_counts)

theorem audio_stage_counts_witness:
  "stage_counts (plan_separate True True) = (3, 2, 1, 0)
   \<and> stage_counts (plan_separate False True) = (1, 1, 0, 0)
   \<and> stage_counts (plan_silence False False) = (2, 0, 0, 2)"
  using audio_stage_counts [of True True] audio_stage_counts [of False True]
    audio_stage_counts [of False False]
  by simp

section \<open>Totality of planning\<close>

text \<open>
  C5, as the claim states it, fails on the reject-asymmetric handler: with audio in the
  intro only it leaves with status 400 instead of a plan, and no transcode is started.
\<close>

theorem reject_intro_only:
  "plan_reject True False = Inl (Reject 400 ''Unsupported combination: intro has audio but main does not. Provide main clip with audio or remove intro audio.'')
   \<and> response (merge_reject world0 request0) = Json 400 ''Unsupported combination: intro has audio but main does not. Provide main clip with audio or remove intro audio.''
   \<and> transcodes (trace (merge_reject world0 request0)) = []"
  by code_simp

text \<open>
  C5, amended. The planners of the separate-audio, silence-synthesis and fused-concat
  handlers are total functions of the two flags with no failure path; the plans of the
  first two are well formed for all four combinations, and those of the fused-concat
  handler for the combinations other than main-only audio. The reject-asymmetric handler
  rejects with status 400 exactly the two combinations in which the main clip has no
  audio, and yields a well-formed plan for the other two.
\<close>

theorem planning_outcomes:
  "well_formed ia ma (plan_separate ia ma)
   \<and> well_formed ia ma (plan_silence ia ma)
   \<and> (ia \<or> \<not> ma \<longrightarrow> well_formed ia ma (plan_fused ia ma))
   \<and> (\<not> ma \<longrightarrow> (\<exists>msg. plan_reject ia ma = Inl (Reject 400 msg)))
   \<and> (ma \<longrightarrow> (\<exists>p. plan_reject ia ma = Inr p \<and> well_formed ia ma p))"
  by (cases ia; cases ma)
     (simp_all add: separate_well_formed silence_well_formed fused_well_formed_cases
        reject_cases reject_accepts)

theorem planning_outcomes_witness:
  "well_formed True False (plan_fused True False)
   \<and> (\<exists>msg. plan_reject True False = Inl (Reject 400 msg))
   \<and> (\<exists>p. plan_reject False True = Inr p \<and> well_formed False True p)"
  using planning_outcomes [of True False] planning_outcomes [of False True] by simp

section \<open>Facts about the handlers\<close>

declare unlink_all.simps [simp del]

lemma transcodes_simps:
  "transcodes [] = []"
  "transcodes (Transcode c # es) = c # transcodes es"
  "transcodes (Probe p # es) = transcodes es"
  "transcodes (WriteFile p t # es) = transcodes es"
  "transcodes (SendFile p # es) = transcodes es"
  "transcodes (Unlink p # es) = transcodes es"
  "transcodes (UnlinkThrew p # es) = transcodes es"
  "transcodes (es @ fs) = transcodes es @ transcodes fs"
  by (simp_all add: transcodes_def)

lemma unlink_all_events:
  "unlink_all ps fs = (ev, fs') \<Longrightarrow> filter is_probe ev = [] \<and> transcodes ev = []"
  by (induction ps arbitrary: fs ev fs')
     (auto simp: unlink_all.simps transcodes_simps split: if_splits prod.splits)

lemma merge_with_failure:
  "is_failure (response (merge_with planner w req)) \<longrightarrow>
     unlinked (trace (merge_with planner w req)) = []
     \<and> files0 w \<subseteq> storage (merge_with planner w req)"
  by (simp add: merge_with_def Let_def unlinked_def
        split: option.split sum.split prod.split reject.split) auto

lemma merge_copy_failure:
  "is_failure (response (merge_copy w req)) \<longrightarrow>
     unlinked (trace (merge_copy w req)) = []
     \<and> files0 w \<subseteq> storage (merge_copy w req)"
  by (simp add: merge_copy_def Let_def unlinked_def
        split: option.split sum.split prod.split) auto

lemma merge_copy_no_probe: "filter is_probe (trace (merge_copy w req)) = []"
  by (simp add: merge_copy_def Let_def split: option.split sum.split prod.split)
     (auto dest: unlink_all_events)

lemma merge_copy_probe_irrelevant: "merge_copy (w\<lparr>probe := pr\<rparr>) req = merge_copy w req"
  by (simp add: merge_copy_def Let_def field_path_def first_path_def file_list_text_def
        cong: sum.case_cong option.case_cong list.case_cong prod.case_cong if_cong)

lemma merge_copy_cmd:
  "\<forall>c \<in> set (transcodes (trace (merge_copy w req))).
     c = concat_copy_cmd (path_join ''uploads'' (filelist_name (now2 w)))
                         (path_join ''uploads'' (merged_name (now w)))"
  by (simp add: merge_copy_def Let_def transcodes_simps
        split: option.split sum.split prod.split)
     (auto dest: unlink_all_events)

lemma merge_copy_starts:
  "files req = Some \<lparr> intro = Some (ip # ips), main = Some (mp # mps) \<rparr> \<and> writeFails w = None \<longrightarrow>
     take 2 (trace (merge_copy w req))
       = [WriteFile (path_join ''uploads'' (filelist_name (now2 w))) (file_list_text w ip mp),
          Transcode (concat_copy_cmd (path_join ''uploads'' (filelist_name (now2 w)))
                                     (path_join ''uploads'' (merged_name (now w))))]"
  by (simp add: merge_copy_def Let_def field_path_def first_path_def
        split: option.split prod.split)

lemma merge_with_outFile:
  "\<forall>c \<in> set (transcodes (trace (merge_with planner w req))).
     outFile c = path_join (TMP w) (merged_name (now w))"
  by (simp add: merge_with_def Let_def transcodes_simps
        split: option.split sum.split prod.split reject.split)
     (auto dest: unlink_all_events)

lemma digit_char_inj: "a < 10 \<Longrightarrow> b < 10 \<Longrightarrow> digit_char a = digit_char b \<Longrightarrow> a = b"
  by (simp add: digit_char_def char_of_eq_iff take_bit_eq_mod)

lemma string_of_nat_nonempty: "string_of_nat n \<noteq> []"
  by (subst string_of_nat.simps) simp

lemma string_of_nat_inj: "string_of_nat n = string_of_nat m \<Longrightarrow> n = m"
proof (induction n arbitrary: m rule: string_of_nat.induct)
  case (1 n)
  show ?case
  proof (cases "n < 10")
    case nsmall: True
    show ?thesis
    proof (cases "m < 10")
      case True
      with nsmall "1.prems" show ?thesis
        by (simp add: string_of_nat.simps [of n] string_of_nat.simps [of m] digit_char_inj)
    next
      case False
      with nsmall "1.prems" string_of_nat_nonempty [of "m div 10"] show ?thesis
        by (simp add: string_of_nat.simps [of n] string_of_nat.simps [of m] Cons_eq_append_conv)
    qed
  next
    case nbig: False
    show ?thesis
    proof (cases "m < 10")
      case True
      with nbig "1.prems" string_of_nat_nonempty [of "n div 10"] show ?thesis
        by (simp add: string_of_nat.simps [of n] string_of_nat.simps [of m] append_eq_Cons_conv)
    next
      case False
      with nbig "1.prems" have a: "string_of_nat (n div 10) = string_of_nat (m div 10)"
        and b: "digit_char (n mod 10) = digit_char (m mod 10)"
        by (simp_all add: string_of_nat.simps [of n] string_of_nat.simps [of m])
      from "1.IH" [OF nbig a] have "n div 10 = m div 10" .
      moreover from b have "n mod 10 = m mod 10" by (simp add: digit_char_inj)
      ultimately show ?thesis by (metis div_mult_mod_eq)
    qed
  qed
qed

lemma merged_name_inj: "(merged_name s = merged_name t) = (s = t)"
  by (auto simp: merged_name_def dest: string_of_nat_inj)

lemma has_audio_duration:
  "has_audio (Some \<lparr> streams = Some (map (\<lambda>s. s\<lparr> duration := d s \<rparr>) ss) \<rparr>)
     = has_audio (Some \<lparr> streams = Some ss \<rparr>)"
  by (simp add: has_audio_def list_ex_iff)

lemma silence_stage_cases:
  "map (\<lambda>s. (s, pads_in s, pads_out s, trim_seconds s)) (filter is_silence (allFilters (plan_silence True True))) = []"
  "map (\<lambda>s. (s, pads_in s, pads_out s, trim_seconds s)) (filter is_silence (allFilters (plan_silence True False)))
     = [(''anullsrc=cl=stereo:r=48000,atrim=0:1[a1]'', [], [''a1''], Some 1)]"
  "map (\<lambda>s. (s, pads_in s, pads_out s, trim_seconds s)) (filter is_silence (allFilters (plan_silence False True)))
     = [(''anullsrc=cl=stereo:r=48000,atrim=0:1[a0]'', [], [''a0''], Some 1)]"
  "map (\<lambda>s. (s, pads_in s, pads_out s, trim_seconds s)) (filter is_silence (allFilters (plan_silence False False)))
     = [(''anullsrc=cl=stereo:r=48000,atrim=0:1[a0]'', [], [''a0''], Some 1),
        (''anullsrc=cl=stereo:r=48000,atrim=0:1[a1]'', [], [''a1''], Some 1)]"
  by code_simp+

lemma silence_concat_cases:
  "pads_in (last (allFilters (plan_silence True True))) = [''v0'', ''a0'', ''v1'', ''a1'']"
  "pads_in (last (allFilters (plan_silence True False))) = [''v0'', ''a0'', ''v1'', ''a1'']"
  "pads_in (last (allFilters (plan_silence False True))) = [''v0'', ''a0'', ''v1'', ''a1'']"
  "pads_in (last (allFilters (plan_silence False False))) = [''v0'', ''a0'', ''v1'', ''a1'']"
  by code_simp+

section \<open>Missing uploads\<close>

text \<open>
  C6. A request without its \<open>main\<close> field should be answered 400 with a JSON error body
  before anything else happens. The four filter-graph handlers do so. The stream-copy
  handler has no such check: reading \<open>req.files.main[0]\<close> throws, and the request is
  answered 500 with the plain text \<open>Error: \<close> followed by the engine's message.
\<close>

theorem copy_missing_main_plain_500:
  "merge_copy w \<lparr> files = Some \<lparr> intro = Some [p], main = None \<rparr> \<rparr>
     = \<lparr> response = Text 500 (''Error: '' @ typeErrorMessage w ''0''),
         trace = [], storage = files0 w \<rparr>
   \<and> merge_with planner w \<lparr> files = Some \<lparr> intro = Some [p], main = None \<rparr> \<rparr>
     = \<lparr> response = Json 400 missing_files_message, trace = [], storage = files0 w \<rparr>"
  by (simp add: merge_copy_def merge_with_def field_path_def first_path_def)

section \<open>Cleanup of temporary files\<close>

text \<open>
  C7. Cleanup should run on every terminal outcome. In every handler it runs only in the
  callback of \<open>sendFile\<close>: whenever the request ends in an error response (missing upload,
  probe failure, rejected combination, transcode failure), no file is unlinked and every
  file that was in temporary storage is still there.
\<close>

theorem failure_leaves_temp_files:
  "(is_failure (response (merge_with planner w req)) \<longrightarrow>
      unlinked (trace (merge_with planner w req)) = []
      \<and> files0 w \<subseteq> storage (merge_with planner w req))
   \<and> (is_failure (response (merge_copy w req)) \<longrightarrow>
      unlinked (trace (merge_copy w req)) = []
      \<and> files0 w \<subseteq> storage (merge_copy w req))"
  using merge_with_failure [of planner w req] merge_copy_failure [of w req] by blast

theorem failure_leaves_temp_files_witness:
  "response (merge_fused world_fail request0) = Json 500 ''ffmpeg exited with code 1''
   \<and> unlinked (trace (merge_fused world_fail request0)) = []
   \<and> {''/tmp/video-merge-api/i1'', ''/tmp/video-merge-api/m1''}
        \<subseteq> storage (merge_fused world_fail request0)
   \<and> unlinked (trace (merge_fused world0 request0))
        = [''/tmp/video-merge-api/i1'', ''/tmp/video-merge-api/m1'',
           ''/tmp/video-merge-api/merged_42.mp4'']"
proof -
  have r: "response (merge_fused world_fail request0) = Json 500 ''ffmpeg exited with code 1''"
    by code_simp
  have ok: "unlinked (trace (merge_fused world0 request0))
        = [''/tmp/video-merge-api/i1'', ''/tmp/video-merge-api/m1'',
           ''/tmp/video-merge-api/merged_42.mp4'']"
    by code_simp
  have f: "is_failure (response (merge_with (\<lambda>i m. Inr (plan_fused i m)) world_fail request0))"
    using r by (simp add: merge_fused_def)
  have "files0 world_fail = {''/tmp/video-merge-api/i1'', ''/tmp/video-merge-api/m1'',
                 ''/tmp/video-merge-api/i2'', ''/tmp/video-merge-api/m2''}"
    by (simp add: world_fail_def world0_def)
  with failure_leaves_temp_files [of "\<lambda>i m. Inr (plan_fused i m)" world_fail request0] f r ok
  show ?thesis by (simp add: merge_fused_def)
qed

section \<open>Names of output files\<close>

text \<open>
  C8, as the claim states it, fails: two different requests served at the same clock
  value are given the same output file.
\<close>

theorem same_clock_same_output_name:
  "request0 \<noteq> request1
   \<and> map outFile (transcodes (trace (merge_fused world0 request0)))
       = [''/tmp/video-merge-api/merged_42.mp4'']
   \<and> map outFile (transcodes (trace (merge_fused world0 request1)))
       = [''/tmp/video-merge-api/merged_42.mp4'']"
  by code_simp

text \<open>
  C8, amended. The output file of a request is named from the millisecond clock alone,
  \<open>merged_<clock>.mp4\<close> in the temporary directory, whatever the request: two requests are
  given distinct output files exactly when they read distinct clock values.
\<close>

theorem output_name_from_clock:
  "(\<forall>c \<in> set (transcodes (trace (merge_with planner w req))).
      outFile c = path_join (TMP w) (merged_name (now w)))
   \<and> (\<forall>c \<in> set (transcodes (trace (merge_copy w req))).
      outFile c = path_join ''uploads'' (merged_name (now w)))
   \<and> (path_join d (merged_name s) = path_join d (merged_name t)) = (s = t)"
proof -
  have "\<forall>c \<in> set (transcodes (trace (merge_copy w req))).
      outFile c = path_join ''uploads'' (merged_name (now w))"
    using merge_copy_cmd [of w req] by (auto simp: concat_copy_cmd_def)
  moreover have "(path_join d (merged_name s) = path_join d (merged_name t)) = (s = t)"
    by (simp add: path_join_def merged_name_inj)
  ultimately show ?thesis using merge_with_outFile [of planner w req] by blast
qed

theorem output_name_from_clock_witness:
  "transcodes (trace (merge_separate world0 request0)) \<noteq> []
   \<and> outFile (hd (transcodes (trace (merge_separate world0 request0))))
       = path_join (TMP world0) (merged_name 42)
   \<and> path_join ''/tmp'' (merged_name 1700000000000) \<noteq> path_join ''/tmp'' (merged_name 1700000000001)"
proof -
  have n: "transcodes (trace (merge_separate world0 request0)) \<noteq> []" by code_simp
  then have m: "hd (transcodes (trace (merge_with (\<lambda>i m. Inr (plan_separate i m)) world0 request0)))
      \<in> set (transcodes (trace (merge_with (\<lambda>i m. Inr (plan_separate i m)) world0 request0)))"
    by (simp add: merge_separate_def)
  have c: "now world0 = 42" by (simp add: world0_def)
  from output_name_from_clock [of "\<lambda>i m. Inr (plan_separate i m)" world0 request0
      "''/tmp''" 1700000000000 1700000000001] m n c
  show ?thesis by (simp add: merge_separate_def)
qed

section \<open>The stream-copy handler\<close>

text \<open>
  C9. The stream-copy handler never probes an input and never builds a filter graph:
  its outcome does not depend on what a probe would answer, every transcoder command it
  issues reads the one list file with the concat demuxer, has an empty filter graph and
  copies the streams, and for a request with both uploads the handler first writes the
  list file naming the two resolved paths and then starts that command.
\<close>

theorem copy_no_probe_no_filter:
  "filter is_probe (trace (merge_copy w req)) = []
   \<and> merge_copy (w\<lparr>probe := pr\<rparr>) req = merge_copy w req
   \<and> (\<forall>c \<in> set (transcodes (trace (merge_copy w req))).
        c = concat_copy_cmd (path_join ''uploads'' (filelist_name (now2 w)))
                            (path_join ''uploads'' (merged_name (now w)))
        \<and> complexFilter c = []
        \<and> inputOptions c = [''-f concat'', ''-safe 0'']
        \<and> cmdOutputOptions c = [''-c copy''])
   \<and> (files req = Some \<lparr> intro = Some (ip # ips), main = Some (mp # mps) \<rparr> \<and> writeFails w = None \<longrightarrow>
        take 2 (trace (merge_copy w req))
          = [WriteFile (path_join ''uploads'' (filelist_name (now2 w))) (file_list_text w ip mp),
             Transcode (concat_copy_cmd (path_join ''uploads'' (filelist_name (now2 w)))
                                        (path_join ''uploads'' (merged_name (now w))))])"
proof -
  have "\<forall>c \<in> set (transcodes (trace (merge_copy w req))).
        c = concat_copy_cmd (path_join ''uploads'' (filelist_name (now2 w)))
                            (path_join ''uploads'' (merged_name (now w)))
        \<and> complexFilter c = []
        \<and> inputOptions c = [''-f concat'', ''-safe 0'']
        \<and> cmdOutputOptions c = [''-c copy'']"
    using merge_copy_cmd [of w req] by (auto simp: concat_copy_cmd_def)
  then show ?thesis
    using merge_copy_no_probe [of w req] merge_copy_probe_irrelevant [where w = w and pr = pr and req = req]
      merge_copy_starts [of req ip ips mp mps w]
    by blast
qed

theorem copy_no_probe_no_filter_witness:
  "files request0 = Some \<lparr> intro = Some [''/tmp/video-merge-api/i1''],
                           main = Some [''/tmp/video-merge-api/m1''] \<rparr>
   \<and> writeFails world0 = None
   \<and> take 2 (trace (merge_copy world0 request0))
       = [WriteFile ''uploads/filelist_43.txt''
            (''file '' @ [CHR 0x27] @ ''/tmp/video-merge-api/i1'' @ [CHR 0x27] @ [CHR 0x0A]
             @ ''file '' @ [CHR 0x27] @ ''/tmp/video-merge-api/m1'' @ [CHR 0x27]),
          Transcode \<lparr> inputs = [''uploads/filelist_43.txt''],
                      inputOptions = [''-f concat'', ''-safe 0''],
                      complexFilter = [],
                      cmdOutputOptions = [''-c copy''],
                      outFile = ''uploads/merged_42.mp4'' \<rparr>]
   \<and> filter is_probe (trace (merge_copy world0 request0)) = []"
proof -
  have h: "files request0 = Some \<lparr> intro = Some [''/tmp/video-merge-api/i1''],
                           main = Some [''/tmp/video-merge-api/m1''] \<rparr>
           \<and> writeFails world0 = None"
    by (simp add: request0_def world0_def)
  have e: "path_join ''uploads'' (filelist_name (now2 world0)) = ''uploads/filelist_43.txt''"
    "path_join ''uploads'' (merged_name (now world0)) = ''uploads/merged_42.mp4''"
    "file_list_text world0 ''/tmp/video-merge-api/i1'' ''/tmp/video-merge-api/m1''
       = ''file '' @ [CHR 0x27] @ ''/tmp/video-merge-api/i1'' @ [CHR 0x27] @ [CHR 0x0A]
             @ ''file '' @ [CHR 0x27] @ ''/tmp/video-merge-api/m1'' @ [CHR 0x27]"
    by code_simp+
  from copy_no_probe_no_filter [of world0 request0 "probe world0"
      "''/tmp/video-merge-api/i1''" "[]" "''/tmp/video-merge-api/m1''" "[]"] h e
  show ?thesis by (simp add: concat_copy_cmd_def)
qed

section \<open>Synthesised silence\<close>

text \<open>
  C10. In the silence-synthesis handler, for each input without audio the stage that
  produces its audio pad (\<open>a0\<close> for the intro, \<open>a1\<close> for the main clip) is the fixed text
  \<open>anullsrc=cl=stereo:r=48000,atrim=0:1\<close>: it consumes no pad, and its trim window is one
  second long. The plan is a function of the two audio-presence flags alone, and these do
  not change with the durations the probe reports. The last stage, the four-pad concat,
  consumes \<open>v0\<close>, \<open>a0\<close>, \<open>v1\<close>, \<open>a1\<close>.
\<close>

theorem silence_is_one_second:
  "map (\<lambda>s. (s, pads_in s, pads_out s, trim_seconds s))
       (filter is_silence (allFilters (plan_silence ia ma)))
     = (if ia then [] else [(''anullsrc=cl=stereo:r=48000,atrim=0:1[a0]'', [], [''a0''], Some 1)])
       @ (if ma then [] else [(''anullsrc=cl=stereo:r=48000,atrim=0:1[a1]'', [], [''a1''], Some 1)])
   \<and> pads_in (last (allFilters (plan_silence ia ma))) = [''v0'', ''a0'', ''v1'', ''a1'']
   \<and> has_audio (Some \<lparr> streams = Some (map (\<lambda>s. s\<lparr> duration := d s \<rparr>) ss) \<rparr>)
       = has_audio (Some \<lparr> streams = Some ss \<rparr>)"
  by (cases ia; cases ma)
     (simp_all add: silence_stage_cases silence_concat_cases has_audio_duration)

theorem silence_is_one_second_witness:
  "map (\<lambda>s. (s, pads_in s, pads_out s, trim_seconds s))
       (filter is_silence (allFilters (plan_silence False True)))
     = [(''anullsrc=cl=stereo:r=48000,atrim=0:1[a0]'', [], [''a0''], Some 1)]
   \<and> pads_in (last (allFilters (plan_silence False True))) = [''v0'', ''a0'', ''v1'', ''a1'']
   \<and> has_audio (Some \<lparr> streams = Some [\<lparr> codec_type = ''video'', duration = ''300'' \<rparr>] \<rparr>)
       = has_audio (Some \<lparr> streams = Some [\<lparr> codec_type = ''video'', duration = ''12.5'' \<rparr>] \<rparr>)"
  using silence_is_one_second [of False True "\<lambda>s. ''300''" "[\<lparr> codec_type = ''video'', duration = ''12.5'' \<rparr>]"]
  by simp

end
